theory Spec2Isabelle
  imports Main "HOL-Library.AList"
begin

section \<open>Python values used by the launcher\<close>

text \<open>
  The development embeds \<^verbatim>\<open>start.py\<close> and \<^verbatim>\<open>scripts/start_utils.py\<close>.
  Conventions of the embedding:
  \<^item> A Python \<^verbatim>\<open>str\<close> is a \<^typ>\<open>string\<close> holding its UTF-8 bytes, a file content is the
    \<^typ>\<open>string\<close> of its bytes. Character classes (space, digit, letter case) are those of
    Python on ASCII; a byte above 0x7F is neither space nor digit.
  \<^item> A function that can raise returns \<open>exn + 'a\<close>, with \<open>Inl\<close> the exception that leaves it.
  \<^item> Everything the operating system decides (external commands, sockets, signals sent to
    processes, the operator's answer) is a field of the record \<open>os\<close>; the files of the project
    directory are the state \<open>fs\<close>, threaded through the functions that write.
  \<^item> The launcher runs a command at most once in an invocation, so the outcome of a command
    is a function of the command. External commands are taken to leave alone the files that
    the launcher reads itself.
  \<^item> \<^verbatim>\<open>Logger\<close> only prints; its calls are left out, and printing is taken not to fail.
\<close>

subsection \<open>Exceptions\<close>

datatype exn_class =
    BaseException | KeyboardInterrupt | Exception
  | ValueError | UnicodeDecodeError | TypeError | AttributeError | IndexError
  | OverflowError | EOFError
  | OSError | FileNotFoundError | FileExistsError | IsADirectoryError | PermissionError
  | SubprocessError | TimeoutExpired

text \<open>The class itself followed by its bases, as in Python's class hierarchy.\<close>

fun superclasses :: "exn_class \<Rightarrow> exn_class list" where
  "superclasses BaseException = [BaseException]"
| "superclasses KeyboardInterrupt = [KeyboardInterrupt, BaseException]"
| "superclasses Exception = [Exception, BaseException]"
| "superclasses ValueError = [ValueError, Exception, BaseException]"
| "superclasses UnicodeDecodeError = [UnicodeDecodeError, ValueError, Exception, BaseException]"
| "superclasses TypeError = [TypeError, Exception, BaseException]"
| "superclasses AttributeError = [AttributeError, Exception, BaseException]"
| "superclasses IndexError = [IndexError, Exception, BaseException]"
| "superclasses OverflowError = [OverflowError, Exception, BaseException]"
| "superclasses EOFError = [EOFError, Exception, BaseException]"
| "superclasses OSError = [OSError, Exception, BaseException]"
| "superclasses FileNotFoundError = [FileNotFoundError, OSError, Exception, BaseException]"
| "superclasses FileExistsError = [FileExistsError, OSError, Exception, BaseException]"
| "superclasses IsADirectoryError = [IsADirectoryError, OSError, Exception, BaseException]"
| "superclasses PermissionError = [PermissionError, OSError, Exception, BaseException]"
| "superclasses SubprocessError = [SubprocessError, Exception, BaseException]"
| "superclasses TimeoutExpired = [TimeoutExpired, SubprocessError, Exception, BaseException]"

text \<open>
  \<open>Exn c s\<close> is an exception of class \<open>c\<close> whose \<^verbatim>\<open>str(e)\<close> is \<open>s\<close>;
  \<open>SystemExit n\<close> is what \<^verbatim>\<open>sys.exit(n)\<close> raises (a direct subclass of BaseException).
\<close>

datatype exn = Exn exn_class string | SystemExit int

fun isinstance :: "exn \<Rightarrow> exn_class \<Rightarrow> bool" where
  "isinstance (Exn c s) d = (d \<in> set (superclasses c))"
| "isinstance (SystemExit n) d = (d = BaseException)"

fun exn_str :: "exn \<Rightarrow> string" where
  "exn_str (Exn c s) = s"
| "exn_str (SystemExit n) = []"

subsection \<open>Strings\<close>

text \<open>\<^verbatim>\<open>str.isspace\<close> on ASCII: TAB, LF, VT, FF, CR, FS, GS, RS, US and the blank.\<close>

definition py_isspace :: "char \<Rightarrow> bool" where
  "py_isspace c = (let n = (of_char c :: nat) in (9 \<le> n \<and> n \<le> 13) \<or> (28 \<le> n \<and> n \<le> 32))"

definition py_lstrip :: "string \<Rightarrow> string" where
  "py_lstrip s = dropWhile py_isspace s"

definition py_strip :: "string \<Rightarrow> string" where
  "py_strip s = rev (dropWhile py_isspace (rev (dropWhile py_isspace s)))"

text \<open>\<^verbatim>\<open>s.lstrip(chars)\<close>: every leading character that occurs in \<open>chars\<close> goes.\<close>

definition py_lstrip_chars :: "string \<Rightarrow> string \<Rightarrow> string" where
  "py_lstrip_chars chars s = dropWhile (\<lambda>c. c \<in> set chars) s"

text \<open>\<^verbatim>\<open>s.split(sep)[0]\<close> for a separator of one character: the text before its first occurrence.\<close>

definition split_first :: "char \<Rightarrow> string \<Rightarrow> string" where
  "split_first sep s = takeWhile (\<lambda>c. c \<noteq> sep) s"

text \<open>
  \<^verbatim>\<open>s.split(sep, 1)[1]\<close> for a separator of one character: the text after its first
  occurrence; the list has one element only, and the index raises, when \<open>sep\<close> does not occur.
\<close>

definition split_second :: "char \<Rightarrow> string \<Rightarrow> exn + string" where
  "split_second sep s =
     (case dropWhile (\<lambda>c. c \<noteq> sep) s of
        [] \<Rightarrow> Inl (Exn IndexError ''list index out of range'')
      | _ # rest \<Rightarrow> Inr rest)"

definition py_startswith :: "string \<Rightarrow> string \<Rightarrow> bool" where
  "py_startswith s p = (take (length p) s = p)"

text \<open>\<^verbatim>\<open>sub in s\<close>.\<close>

fun py_contains :: "string \<Rightarrow> string \<Rightarrow> bool" where
  "py_contains sub [] = (sub = [])"
| "py_contains sub (c # cs) = (py_startswith (c # cs) sub \<or> py_contains sub cs)"

definition py_lower_char :: "char \<Rightarrow> char" where
  "py_lower_char c =
     (let n = (of_char c :: nat) in if 65 \<le> n \<and> n \<le> 90 then char_of (n + 32) else c)"

definition py_lower :: "string \<Rightarrow> string" where
  "py_lower s = map py_lower_char s"

subsection \<open>Integers and their text\<close>

definition is_digit :: "char \<Rightarrow> bool" where
  "is_digit c = (let n = (of_char c :: nat) in 48 \<le> n \<and> n \<le> 57)"

definition digit_value :: "char \<Rightarrow> nat" where
  "digit_value c = of_char c - 48"

definition dec_value :: "string \<Rightarrow> nat" where
  "dec_value s = foldl (\<lambda>n c. 10 * n + digit_value c) 0 (filter is_digit s)"

text \<open>The blanks that \<^verbatim>\<open>int()\<close> skips around a literal: TAB, LF, VT, FF, CR and the blank.\<close>

definition int_isspace :: "char \<Rightarrow> bool" where
  "int_isspace c = (let n = (of_char c :: nat) in (9 \<le> n \<and> n \<le> 13) \<or> n = 32)"

text \<open>
  Digits with single underscores between them; the flag says that the previous character
  was a digit. An underscore needs a digit on each side.
\<close>

fun digits_ok :: "bool \<Rightarrow> string \<Rightarrow> bool" where
  "digits_ok prev [] = prev"
| "digits_ok prev (c # cs) =
     (if is_digit c then digits_ok True cs
      else c = CHR ''_'' \<and> prev \<and> digits_ok False cs)"

fun hex_digit :: "nat \<Rightarrow> char" where
  "hex_digit n = (if n < 10 then char_of (48 + n) else char_of (87 + n))"

text \<open>How \<^verbatim>\<open>repr\<close> writes one character inside the quotes \<open>q\<close>.\<close>

definition repr_char :: "char \<Rightarrow> char \<Rightarrow> string" where
  "repr_char q c =
     (let n = (of_char c :: nat) in
      if c = q \<or> c = CHR 0x5C then [CHR 0x5C, c]
      else if n = 9 then [CHR 0x5C, CHR ''t'']
      else if n = 10 then [CHR 0x5C, CHR ''n'']
      else if n = 13 then [CHR 0x5C, CHR ''r'']
      else if n < 32 \<or> n = 127 then [CHR 0x5C, CHR ''x'', hex_digit (n div 16), hex_digit (n mod 16)]
      else [c])"

definition py_repr :: "string \<Rightarrow> string" where
  "py_repr s =
     (let q = (if CHR 0x27 \<in> set s \<and> CHR 0x22 \<notin> set s then CHR 0x22 else CHR 0x27)
      in q # concat (map (repr_char q) s) @ [q])"

text \<open>
  \<^verbatim>\<open>int(s)\<close> in base 10: blanks around, an optional sign, then the digits. Python's integers
  are unbounded, and so is the result. Anything else raises ValueError.
\<close>

definition py_int :: "string \<Rightarrow> exn + int" where
  "py_int s =
     (let t = rev (dropWhile int_isspace (rev (dropWhile int_isspace s)));
          neg = (t \<noteq> [] \<and> hd t = CHR ''-'');
          body = (if t \<noteq> [] \<and> (hd t = CHR ''-'' \<or> hd t = CHR ''+'') then tl t else t)
      in if digits_ok False body
         then Inr (if neg then - int (dec_value body) else int (dec_value body))
         else Inl (Exn ValueError (''invalid literal for int() with base 10: '' @ py_repr s)))"

text \<open>\<^verbatim>\<open>str(n)\<close> for an integer.\<close>

fun nat_digits :: "nat \<Rightarrow> string" where
  "nat_digits n = (if n < 10 then [char_of (48 + n)] else nat_digits (n div 10) @ [char_of (48 + n mod 10)])"

declare nat_digits.simps [simp del]

definition py_str :: "int \<Rightarrow> string" where
  "py_str i = (if i < 0 then CHR ''-'' # nat_digits (nat (- i)) else nat_digits (nat i))"

section \<open>The environment\<close>

text \<open>What \<^verbatim>\<open>subprocess.run\<close> returns: a CompletedProcess.\<close>

record completed =
  returncode :: int
  stdout :: string
  stderr :: string

text \<open>
  What happens to a child started by \<^verbatim>\<open>subprocess.Popen\<close> while the launcher waits for it:
  it exits with a code, or a SIGINT or SIGTERM reaches the launcher first (the handler
  registered by \<^verbatim>\<open>ClaudeRelayStarter.__init__\<close> runs), or \<^verbatim>\<open>wait\<close> raises.
\<close>

datatype wait_outcome = Exited int | Signalled | WaitRaised exn

datatype popen_outcome = SpawnFailed exn | Spawned int wait_outcome

type_synonym path = string

text \<open>
  What \<^verbatim>\<open>json.load\<close> returns. A number with a fraction or an exponent becomes a float, kept
  here as its text. An object becomes a \<^verbatim>\<open>dict\<close>: the pairs in the order of insertion, no
  key twice.
\<close>

datatype json =
    JNull | JBool bool | JInt int | JFloat string | JStr string
  | JArr "json list" | JObj "(string \<times> json) list"

type_synonym dict = "(string \<times> json) list"

text \<open>
  The operating system as the launcher meets it. Commands are given by their argument list,
  their working directory (\<open>None\<close>: the launcher's own) and the variables added to the
  environment.
\<close>

record os =
  platform_system :: string
  sys_platform :: string
  linesep :: string
  run :: "string list \<Rightarrow> path option \<Rightarrow> (string \<times> string) list \<Rightarrow> exn + completed"
  popen :: "string list \<Rightarrow> path option \<Rightarrow> (string \<times> string) list \<Rightarrow> popen_outcome"
  connect_ex :: "string \<Rightarrow> int \<Rightarrow> exn + int"
  kill :: "int \<Rightarrow> int \<Rightarrow> exn + unit"
  input_line :: "exn + string"
  glob_star :: "path \<Rightarrow> path list"
  platform_machine :: string
  python_version :: string
  cwd :: string
  json_load :: "string \<Rightarrow> exn + json"
  update_from_array :: "(string \<times> json) list \<Rightarrow> json list \<Rightarrow> (string \<times> json) list"

section \<open>SystemChecker\<close>

definition msg_need_node :: string where
  "msg_need_node = [CHR 0xE9, CHR 0x9C, CHR 0x80, CHR 0xE8, CHR 0xA6, CHR 0x81] @ ''Node.js >= 18.0.0, '' @ [CHR 0xE5, CHR 0xBD, CHR 0x93, CHR 0xE5, CHR 0x89, CHR 0x8D, CHR 0xE7, CHR 0x89, CHR 0x88, CHR 0xE6, CHR 0x9C, CHR 0xAC] @ '': ''"

definition msg_not_installed :: string where
  "msg_not_installed = [CHR 0xE6, CHR 0x9C, CHR 0xAA, CHR 0xE5, CHR 0xAE, CHR 0x89, CHR 0xE8, CHR 0xA3, CHR 0x85]"

definition msg_node_missing :: string where
  "msg_node_missing = ''Node.js'' @ msg_not_installed @ [CHR 0xE6, CHR 0x88, CHR 0x96, CHR 0xE6, CHR 0x97, CHR 0xA0, CHR 0xE6, CHR 0xB3, CHR 0x95, CHR 0xE6, CHR 0x89, CHR 0xA7, CHR 0xE8, CHR 0xA1, CHR 0x8C]"

text \<open>The text of \<^verbatim>\<open>f"check <tool> failed: {str(e)}"\<close>, in the source's Chinese.\<close>

definition msg_check_failed :: "string \<Rightarrow> exn \<Rightarrow> string" where
  "msg_check_failed tool e = [CHR 0xE6, CHR 0xA3, CHR 0x80, CHR 0xE6, CHR 0x9F, CHR 0xA5] @ tool @ [CHR 0xE5, CHR 0xA4, CHR 0xB1, CHR 0xE8, CHR 0xB4, CHR 0xA5] @ '': '' @ exn_str e"

text \<open>
  \<^verbatim>\<open>try: ... except Exception as e: return handler(e)\<close> around a body that has been
  evaluated to \<open>r\<close>.
\<close>

definition except_Exception :: "exn + 'a \<Rightarrow> (exn \<Rightarrow> 'a) \<Rightarrow> exn + 'a" where
  "except_Exception r handler =
     (case r of
        Inl e \<Rightarrow> if isinstance e Exception then Inr (handler e) else Inl e
      | Inr v \<Rightarrow> Inr v)"

definition check_node_version :: "os \<Rightarrow> exn + (bool \<times> string)" where
  "check_node_version os =
     except_Exception
       (case run os [''node'', ''--version''] None [] of
          Inl e \<Rightarrow> Inl e
        | Inr result \<Rightarrow>
            if returncode result = 0 then
              (let version = py_strip (stdout result);
                   version_num = split_first CHR ''.'' (py_lstrip_chars ''v'' version)
               in case py_int version_num of
                    Inl e \<Rightarrow> Inl e
                  | Inr n \<Rightarrow>
                      if n \<ge> 18 then Inr (True, version)
                      else Inr (False, msg_need_node @ version))
            else Inr (False, msg_node_missing))
       (\<lambda>e. (False, msg_check_failed ''Node.js'' e))"

text \<open>
  \<^verbatim>\<open>check_npm_installed\<close>, \<^verbatim>\<open>check_docker_installed\<close> and
  \<^verbatim>\<open>check_docker_compose_installed\<close> have one body, up to the tool and the texts.
\<close>

definition version_probe :: "os \<Rightarrow> string \<Rightarrow> string \<Rightarrow> exn + (bool \<times> string)" where
  "version_probe os tool name =
     except_Exception
       (case run os [tool, ''--version''] None [] of
          Inl e \<Rightarrow> Inl e
        | Inr result \<Rightarrow>
            if returncode result = 0 then Inr (True, py_strip (stdout result))
            else Inr (False, name @ msg_not_installed))
       (\<lambda>e. (False, msg_check_failed name e))"

definition check_npm_installed :: "os \<Rightarrow> exn + (bool \<times> string)" where
  "check_npm_installed os = version_probe os ''npm'' ''npm''"

definition check_docker_installed :: "os \<Rightarrow> exn + (bool \<times> string)" where
  "check_docker_installed os = version_probe os ''docker'' ''Docker''"

definition check_docker_compose_installed :: "os \<Rightarrow> exn + (bool \<times> string)" where
  "check_docker_compose_installed os = version_probe os ''docker-compose'' ''Docker Compose''"

section \<open>Files\<close>

text \<open>
  The project directory: a path, relative to the project root, names a regular file with
  its bytes, or a directory. The directory a file is written into is taken to exist (the
  launcher writes a file only beside its template, or into the root).
\<close>

datatype node = File string | Dir

type_synonym fs = "path \<Rightarrow> node option"

definition path_exists :: "fs \<Rightarrow> path \<Rightarrow> bool" where
  "path_exists fs p = (fs p \<noteq> None)"

definition open_read :: "fs \<Rightarrow> path \<Rightarrow> exn + string" where
  "open_read fs p =
     (case fs p of
        None \<Rightarrow> Inl (Exn FileNotFoundError p)
      | Some Dir \<Rightarrow> Inl (Exn IsADirectoryError p)
      | Some (File bytes) \<Rightarrow> Inr bytes)"

text \<open>\<^verbatim>\<open>open(p, 'w')\<close> creates the file or empties it.\<close>

definition open_write :: "fs \<Rightarrow> path \<Rightarrow> (exn + unit) \<times> fs" where
  "open_write fs p =
     (case fs p of
        Some Dir \<Rightarrow> (Inl (Exn IsADirectoryError p), fs)
      | _ \<Rightarrow> (Inr (), fs(p \<mapsto> File [])))"

text \<open>Well-formed UTF-8, as Python's strict decoder accepts it.\<close>

definition is_cont :: "nat \<Rightarrow> bool" where
  "is_cont c = (0x80 \<le> c \<and> c \<le> 0xBF)"

definition seq_length :: "nat \<Rightarrow> nat" where
  "seq_length b =
     (if b < 0x80 then 1
      else if 0xC2 \<le> b \<and> b \<le> 0xDF then 2
      else if 0xE0 \<le> b \<and> b \<le> 0xEF then 3
      else if 0xF0 \<le> b \<and> b \<le> 0xF4 then 4
      else 0)"

definition second_ok :: "nat \<Rightarrow> nat \<Rightarrow> bool" where
  "second_ok b c =
     (if b = 0xE0 then 0xA0 \<le> c \<and> c \<le> 0xBF
      else if b = 0xED then 0x80 \<le> c \<and> c \<le> 0x9F
      else if b = 0xF0 then 0x90 \<le> c \<and> c \<le> 0xBF
      else if b = 0xF4 then 0x80 \<le> c \<and> c \<le> 0x8F
      else is_cont c)"

fun valid_utf8 :: "nat list \<Rightarrow> bool" where
  "valid_utf8 [] = True"
| "valid_utf8 (b # bs) =
     (if seq_length b = 1 then valid_utf8 bs
      else if seq_length b = 2 then
        (case bs of c # r \<Rightarrow> second_ok b c \<and> valid_utf8 r | _ \<Rightarrow> False)
      else if seq_length b = 3 then
        (case bs of c # d # r \<Rightarrow> second_ok b c \<and> is_cont d \<and> valid_utf8 r | _ \<Rightarrow> False)
      else if seq_length b = 4 then
        (case bs of c # d # e # r \<Rightarrow> second_ok b c \<and> is_cont d \<and> is_cont e \<and> valid_utf8 r
         | _ \<Rightarrow> False)
      else False)"

text \<open>
  Reading in text mode translates line ends (\<^verbatim>\<open>newline=None\<close>, the default of
  \<^verbatim>\<open>open\<close>): CR LF and a lone CR both arrive as LF.
\<close>

fun universal_newlines :: "string \<Rightarrow> string" where
  "universal_newlines [] = []"
| "universal_newlines [c] = [if c = CHR 0x0D then CHR 0x0A else c]"
| "universal_newlines (c # d # r) =
     (if c = CHR 0x0D then
        (if d = CHR 0x0A then CHR 0x0A # universal_newlines r
         else CHR 0x0A # universal_newlines (d # r))
      else c # universal_newlines (d # r))"

text \<open>
  \<^verbatim>\<open>f.read()\<close> on a file opened with \<^verbatim>\<open>open(p, 'r', encoding='utf-8')\<close>. The PID file
  is opened with the locale's encoding, taken to be UTF-8 as well.
\<close>

definition read_text :: "string \<Rightarrow> exn + string" where
  "read_text bytes =
     (if valid_utf8 (map of_char bytes) then Inr (universal_newlines bytes)
      else Inl (Exn UnicodeDecodeError ''utf-8''))"

text \<open>Writing in text mode turns every LF into \<^verbatim>\<open>os.linesep\<close>.\<close>

definition write_newlines :: "os \<Rightarrow> string \<Rightarrow> string" where
  "write_newlines os text = concat (map (\<lambda>c. if c = CHR 0x0A then linesep os else [c]) text)"

text \<open>The lines of a text; each is stripped by its reader, so the line ends are left out.\<close>

fun split_lines :: "string \<Rightarrow> string list" where
  "split_lines [] = [[]]"
| "split_lines (c # cs) =
     (if c = CHR 0x0A then [] # split_lines cs
      else (case split_lines cs of l # ls \<Rightarrow> (c # l) # ls | [] \<Rightarrow> [[c]]))"

section \<open>ConfigManager\<close>

definition env_file :: path where "env_file = ''.env''"
definition env_example :: path where "env_example = ''.env.example''"
definition config_file :: path where "config_file = ''config/config.js''"
definition config_example :: path where "config_example = ''config/config.example.js''"
definition start_config_file :: path where "start_config_file = ''config/start_config.json''"

text \<open>
  The two nested \<^verbatim>\<open>with open(...)\<close> blocks of the ensure operations: the template is
  opened, the target is opened for writing (and exists from then on), the template is read
  and decoded, and its text is written.
\<close>

definition copy_template :: "os \<Rightarrow> path \<Rightarrow> path \<Rightarrow> fs \<Rightarrow> (exn + unit) \<times> fs" where
  "copy_template os src dst fs =
     (case open_read fs src of
        Inl e \<Rightarrow> (Inl e, fs)
      | Inr bytes \<Rightarrow>
          (case open_write fs dst of
             (Inl e, fs') \<Rightarrow> (Inl e, fs')
           | (Inr _, fs') \<Rightarrow>
               (case read_text bytes of
                  Inl e \<Rightarrow> (Inl e, fs')
                | Inr text \<Rightarrow> (Inr (), fs'(dst \<mapsto> File (write_newlines os text))))))"

definition ensure_env_file :: "os \<Rightarrow> fs \<Rightarrow> (exn + bool) \<times> fs" where
  "ensure_env_file os fs =
     (if \<not> path_exists fs env_file then
        (if path_exists fs env_example then
           (case copy_template os env_example env_file fs of
              (Inl e, fs') \<Rightarrow> (Inl e, fs')
            | (Inr _, fs') \<Rightarrow> (Inr True, fs'))
         else (Inr False, fs))
      else (Inr True, fs))"

definition ensure_config_file :: "os \<Rightarrow> fs \<Rightarrow> (exn + bool) \<times> fs" where
  "ensure_config_file os fs =
     (if \<not> path_exists fs config_file then
        (if path_exists fs config_example then
           (case copy_template os config_example config_file fs of
              (Inl e, fs') \<Rightarrow> (Inl e, fs')
            | (Inr _, fs') \<Rightarrow> (Inr True, fs'))
         else (Inr False, fs))
      else (Inr True, fs))"


text \<open>
  \<^verbatim>\<open>d.update(u)\<close> for a dict \<open>u\<close>: \<^verbatim>\<open>d[k] = v\<close> for each item of \<open>u\<close> in turn. An
  assignment keeps the place of a key that is there and appends a new one.
\<close>

definition dict_update :: "dict \<Rightarrow> dict \<Rightarrow> dict" where
  "dict_update d u = fold (\<lambda>(k, v). AList.update k v) u d"

definition default_config :: dict where
  "default_config =
     [(''default_mode'', JStr ''dev''),
      (''ports'', JObj [(''dev'', JInt 3000), (''prod'', JInt 3000), (''redis'', JInt 6379)]),
      (''docker'', JObj [(''image_name'', JStr ''claude-relay-service''),
                        (''container_name'', JStr ''claude-relay'')]),
      (''redis'', JObj [(''host'', JStr ''localhost''), (''port'', JInt 6379)])]"

text \<open>
  \<^verbatim>\<open>default_config.update(user_config)\<close> for whatever the file held. A number, a boolean and
  \<^verbatim>\<open>null\<close> are not iterable (TypeError); a string is iterated by characters, and the first
  of them is no pair (ValueError); an empty string or array changes nothing. A non-empty
  array is read as a sequence of pairs, with all that Python accepts as a pair and as a key;
  the dict it leaves is the field \<open>update_from_array\<close> of the environment. Every exception
  here is caught by the caller, so only the dict is returned.
\<close>

definition update_with :: "os \<Rightarrow> dict \<Rightarrow> json \<Rightarrow> dict" where
  "update_with os d user_config =
     (case user_config of
        JObj u \<Rightarrow> dict_update d u
      | JArr (x # xs) \<Rightarrow> update_from_array os d (x # xs)
      | _ \<Rightarrow> d)"

text \<open>
  The decoder \<^verbatim>\<open>json.load\<close> is the field \<open>json_load\<close> of the environment, from the bytes
  of the file to the value or the exception (a decoding error or a JSONDecodeError).
\<close>

definition load_start_config :: "os \<Rightarrow> fs \<Rightarrow> exn + dict" where
  "load_start_config os fs =
     (if path_exists fs start_config_file then
        (case open_read fs start_config_file of
           Inl e \<Rightarrow> if isinstance e Exception then Inr default_config else Inl e
         | Inr bytes \<Rightarrow>
             (case json_load os bytes of
                Inl e \<Rightarrow> if isinstance e Exception then Inr default_config else Inl e
              | Inr user_config \<Rightarrow> Inr (update_with os default_config user_config)))
      else Inr default_config)"

text \<open>The loop of \<^verbatim>\<open>get_env_value\<close> over the lines: the first line that starts with \<open>key=\<close>.\<close>

fun scan_env :: "string \<Rightarrow> string list \<Rightarrow> (exn + string) option" where
  "scan_env key [] = None"
| "scan_env key (line # rest) =
     (let line' = py_strip line
      in if py_startswith line' (key @ ''='') then Some (split_second CHR ''='' line')
         else scan_env key rest)"

text \<open>
  The file is decoded as a whole before its first line is looked at. Every exception of the
  body is an \<^verbatim>\<open>Exception\<close> and is swallowed.
\<close>

definition get_env_value :: "fs \<Rightarrow> string \<Rightarrow> string \<Rightarrow> string" where
  "get_env_value fs key dflt =
     (if \<not> path_exists fs env_file then dflt
      else
        (case open_read fs env_file of
           Inl e \<Rightarrow> dflt
         | Inr bytes \<Rightarrow>
             (case read_text bytes of
                Inl e \<Rightarrow> dflt
              | Inr text \<Rightarrow>
                  (case scan_env key (split_lines text) of
                     Some (Inr v) \<Rightarrow> v
                   | Some (Inl e) \<Rightarrow> dflt
                   | None \<Rightarrow> dflt))))"

section \<open>SystemChecker: files and sockets\<close>

definition check_dependencies_installed :: "fs \<Rightarrow> bool" where
  "check_dependencies_installed fs =
     (path_exists fs ''node_modules'' \<and> path_exists fs ''package-lock.json'')"

definition frontend_path :: path where "frontend_path = ''web/admin-spa''"

definition check_frontend_built :: "os \<Rightarrow> fs \<Rightarrow> bool" where
  "check_frontend_built os fs =
     (path_exists fs (frontend_path @ ''/dist'')
      \<and> length (glob_star os (frontend_path @ ''/dist'')) > 0)"

definition check_port_available :: "os \<Rightarrow> int \<Rightarrow> exn + bool" where
  "check_port_available os port =
     except_Exception
       (case connect_ex os ''localhost'' port of
          Inl e \<Rightarrow> Inl e
        | Inr result \<Rightarrow> Inr (result \<noteq> 0))
       (\<lambda>e. True)"

definition check_redis_connection :: "os \<Rightarrow> string \<Rightarrow> int \<Rightarrow> exn + bool" where
  "check_redis_connection os host port =
     except_Exception
       (case connect_ex os host port of
          Inl e \<Rightarrow> Inl e
        | Inr result \<Rightarrow> Inr (result = 0))
       (\<lambda>e. False)"

definition get_system_info :: "os \<Rightarrow> (string \<times> string) list" where
  "get_system_info os =
     [(''platform'', platform_system os),
      (''architecture'', platform_machine os),
      (''python_version'', python_version os),
      (''cwd'', cwd os),
      (''project_root'', ''.'')]"

section \<open>ProcessManager\<close>

definition pid_file :: path where "pid_file = ''claude-relay-service.pid''"

text \<open>\<^verbatim>\<open>except (OSError, subprocess.SubprocessError): return False\<close>.\<close>

definition is_process_running :: "os \<Rightarrow> int \<Rightarrow> exn + bool" where
  "is_process_running os pid =
     (case (if platform_system os = ''Windows'' then
              (case run os [''tasklist'', ''/FI'', ''PID eq '' @ py_str pid] None [] of
                 Inl e \<Rightarrow> Inl e
               | Inr result \<Rightarrow> Inr (py_contains (py_str pid) (stdout result)))
            else
              (case kill os pid 0 of
                 Inl e \<Rightarrow> Inl e
               | Inr _ \<Rightarrow> Inr True)) of
        Inl e \<Rightarrow> if isinstance e OSError \<or> isinstance e SubprocessError then Inr False else Inl e
      | Inr b \<Rightarrow> Inr b)"

text \<open>\<^verbatim>\<open>int(f.read().strip())\<close> on the bytes of the PID file.\<close>

definition pid_of_bytes :: "string \<Rightarrow> exn + int" where
  "pid_of_bytes bytes =
     (case read_text bytes of
        Inl e \<Rightarrow> Inl e
      | Inr text \<Rightarrow> py_int (py_strip text))"

text \<open>
  The body of the \<^verbatim>\<open>try\<close> in \<^verbatim>\<open>get_running_pid\<close>: \<open>Inr None\<close> when it falls through to the
  final \<^verbatim>\<open>return None\<close>, after the stale file has been unlinked.
\<close>

definition read_pid :: "os \<Rightarrow> fs \<Rightarrow> (exn + int option) \<times> fs" where
  "read_pid os fs =
     (case open_read fs pid_file of
        Inl e \<Rightarrow> (Inl e, fs)
      | Inr bytes \<Rightarrow>
          (case pid_of_bytes bytes of
             Inl e \<Rightarrow> (Inl e, fs)
           | Inr pid \<Rightarrow>
               (case is_process_running os pid of
                  Inl e \<Rightarrow> (Inl e, fs)
                | Inr running \<Rightarrow>
                    if running then (Inr (Some pid), fs)
                    else (Inr None, fs(pid_file := None)))))"

text \<open>\<^verbatim>\<open>except (ValueError, FileNotFoundError): pass\<close>, then \<^verbatim>\<open>return None\<close>.\<close>

definition get_running_pid :: "os \<Rightarrow> fs \<Rightarrow> (exn + int option) \<times> fs" where
  "get_running_pid os fs =
     (if path_exists fs pid_file then
        (case read_pid os fs of
           (Inl e, fs') \<Rightarrow>
             if isinstance e ValueError \<or> isinstance e FileNotFoundError then (Inr None, fs')
             else (Inl e, fs')
         | (Inr r, fs') \<Rightarrow> (Inr r, fs'))
      else (Inr None, fs))"

section \<open>ServiceStarter\<close>

definition project_root :: path where "project_root = ''.''"

text \<open>\<^verbatim>\<open>dir_path.mkdir(exist_ok=True)\<close>: a regular file of that name is an error.\<close>

definition mkdir_exist_ok :: "fs \<Rightarrow> path \<Rightarrow> (exn + unit) \<times> fs" where
  "mkdir_exist_ok fs p =
     (case fs p of
        None \<Rightarrow> (Inr (), fs(p \<mapsto> Dir))
      | Some Dir \<Rightarrow> (Inr (), fs)
      | Some (File bytes) \<Rightarrow> (Inl (Exn FileExistsError p), fs))"

fun make_dirs :: "path list \<Rightarrow> fs \<Rightarrow> (exn + unit) \<times> fs" where
  "make_dirs [] fs = (Inr (), fs)"
| "make_dirs (directory # rest) fs =
     (case mkdir_exist_ok fs directory of
        (Inl e, fs') \<Rightarrow> (Inl e, fs')
      | (Inr _, fs') \<Rightarrow> make_dirs rest fs')"

definition prepare_environment :: "os \<Rightarrow> fs \<Rightarrow> (exn + bool) \<times> fs" where
  "prepare_environment os fs =
     (case ensure_env_file os fs of
        (Inl e, fs1) \<Rightarrow> (Inl e, fs1)
      | (Inr ok1, fs1) \<Rightarrow>
          if \<not> ok1 then (Inr False, fs1)
          else
            (case ensure_config_file os fs1 of
               (Inl e, fs2) \<Rightarrow> (Inl e, fs2)
             | (Inr ok2, fs2) \<Rightarrow>
                 if \<not> ok2 then (Inr False, fs2)
                 else
                   (case make_dirs [''logs'', ''data'', ''temp''] fs2 of
                      (Inl e, fs3) \<Rightarrow> (Inl e, fs3)
                    | (Inr _, fs3) \<Rightarrow> (Inr True, fs3))))"

definition install_dependencies :: "os \<Rightarrow> fs \<Rightarrow> exn + bool" where
  "install_dependencies os fs =
     (if check_dependencies_installed fs then Inr True
      else
        except_Exception
          (case run os [''npm'', ''install''] (Some project_root) [] of
             Inl e \<Rightarrow> Inl e
           | Inr result \<Rightarrow> Inr (returncode result = 0))
          (\<lambda>e. False))"

definition build_frontend :: "os \<Rightarrow> fs \<Rightarrow> exn + bool" where
  "build_frontend os fs =
     (if check_frontend_built os fs then Inr True
      else
        except_Exception
          (case (if \<not> path_exists fs (frontend_path @ ''/node_modules'') then
                   (case run os [''npm'', ''install''] (Some frontend_path) [] of
                      Inl e \<Rightarrow> Inl e
                    | Inr result \<Rightarrow> Inr (returncode result \<noteq> 0))
                 else Inr False) of
             Inl e \<Rightarrow> Inl e
           | Inr install_failed \<Rightarrow>
               if install_failed then Inr False
               else
                 (case run os [''npm'', ''run'', ''build''] (Some frontend_path) [] of
                    Inl e \<Rightarrow> Inl e
                  | Inr result \<Rightarrow> Inr (returncode result = 0)))
          (\<lambda>e. False))"

text \<open>The conversion \<^verbatim>\<open>int(...)\<close> of the port stands outside every \<^verbatim>\<open>try\<close>.\<close>

definition check_redis_availability :: "os \<Rightarrow> fs \<Rightarrow> exn + bool" where
  "check_redis_availability os fs =
     (let redis_host = get_env_value fs ''REDIS_HOST'' ''localhost''
      in case py_int (get_env_value fs ''REDIS_PORT'' ''6379'') of
           Inl e \<Rightarrow> Inl e
         | Inr redis_port \<Rightarrow> check_redis_connection os redis_host redis_port)"

section \<open>ClaudeRelayStarter\<close>

text \<open>
  The namespace that \<^verbatim>\<open>parse_args\<close> returns: an attribute is \<open>None\<close> when the namespace
  does not have it (or, for \<open>mode\<close>, when no mode was given).
\<close>

record args =
  mode :: "string option"
  port :: "int option"
  daemon :: "bool option"
  rebuild :: "bool option"
  action :: "string option"

text \<open>\<^verbatim>\<open>getattr(args, name, default)\<close>.\<close>

definition getattr :: "'a option \<Rightarrow> 'a \<Rightarrow> 'a" where
  "getattr attr dflt = (case attr of None \<Rightarrow> dflt | Some v \<Rightarrow> v)"

definition run_system_check :: "os \<Rightarrow> exn + bool" where
  "run_system_check os =
     (case check_node_version os of
        Inl e \<Rightarrow> Inl e
      | Inr (node_ok, node_info) \<Rightarrow>
          if \<not> node_ok then Inr False
          else
            (case check_npm_installed os of
               Inl e \<Rightarrow> Inl e
             | Inr (npm_ok, npm_info) \<Rightarrow> Inr npm_ok))"

text \<open>
  With the port taken, the search for its holder only logs; what it raises is swallowed when
  it is an \<^verbatim>\<open>Exception\<close>.
\<close>

definition check_port_conflicts :: "os \<Rightarrow> int \<Rightarrow> exn + bool" where
  "check_port_conflicts os p =
     (case check_port_available os p of
        Inl e \<Rightarrow> Inl e
      | Inr available \<Rightarrow>
          if available then Inr True
          else
            (case (if sys_platform os = ''win32'' then run os [''netstat'', ''-ano''] None []
                   else run os [''lsof'', ''-i'', '':'' @ py_str p] None []) of
               Inl e \<Rightarrow> if isinstance e Exception then Inr False else Inl e
             | Inr result \<Rightarrow> Inr False))"

text \<open>
  The handlers that end the \<^verbatim>\<open>try\<close> around a foreground launch:
  \<^verbatim>\<open>except KeyboardInterrupt: return True\<close>, \<^verbatim>\<open>except Exception: return False\<close>.
\<close>

definition launch_handlers :: "exn \<Rightarrow> exn + bool" where
  "launch_handlers e =
     (if isinstance e KeyboardInterrupt then Inr True
      else if isinstance e Exception then Inr False
      else Inl e)"

text \<open>
  \<^verbatim>\<open>_signal_handler\<close>: the child is asked to terminate and \<^verbatim>\<open>sys.exit(0)\<close> is raised where
  the launcher stands, which is in \<^verbatim>\<open>wait\<close>.
\<close>

definition signal_handler :: exn where
  "signal_handler = SystemExit 0"

text \<open>
  \<^verbatim>\<open>Popen\<close>, then \<^verbatim>\<open>wait\<close>, then \<^verbatim>\<open>return True\<close>, inside the \<^verbatim>\<open>try\<close>: the exit code that
  \<^verbatim>\<open>wait\<close> returns is not looked at.
\<close>

definition launch_foreground :: "os \<Rightarrow> string list \<Rightarrow> (string \<times> string) list \<Rightarrow> exn + bool" where
  "launch_foreground os cmd env =
     (case popen os cmd (Some project_root) env of
        SpawnFailed e \<Rightarrow> launch_handlers e
      | Spawned child (Exited code) \<Rightarrow> Inr True
      | Spawned child Signalled \<Rightarrow> launch_handlers signal_handler
      | Spawned child (WaitRaised e) \<Rightarrow> launch_handlers e)"

text \<open>The variables the launcher adds to the child's environment.\<close>

definition child_env :: "string \<Rightarrow> args \<Rightarrow> (string \<times> string) list" where
  "child_env node_env a =
     (''NODE_ENV'', node_env) # (case port a of None \<Rightarrow> [] | Some p \<Rightarrow> [(''PORT'', py_str p)])"

text \<open>
  \<^verbatim>\<open>start_dev_mode\<close> up to the launch: each step is a gate. Without Redis the operator is
  asked, and only the answer \<open>y\<close> or \<open>Y\<close> goes on.
\<close>

definition dev_preflight :: "os \<Rightarrow> args \<Rightarrow> fs \<Rightarrow> (exn + bool) \<times> fs" where
  "dev_preflight os a fs =
     (case run_system_check os of
        Inl e \<Rightarrow> (Inl e, fs)
      | Inr ok \<Rightarrow>
     if \<not> ok then (Inr False, fs) else
     (case prepare_environment os fs of
        (Inl e, fs1) \<Rightarrow> (Inl e, fs1)
      | (Inr ok, fs1) \<Rightarrow>
     if \<not> ok then (Inr False, fs1) else
     (case install_dependencies os fs1 of
        Inl e \<Rightarrow> (Inl e, fs1)
      | Inr ok \<Rightarrow>
     if \<not> ok then (Inr False, fs1) else
     (case build_frontend os fs1 of
        Inl e \<Rightarrow> (Inl e, fs1)
      | Inr ok \<Rightarrow>
     if \<not> ok then (Inr False, fs1) else
     (case check_redis_availability os fs1 of
        Inl e \<Rightarrow> (Inl e, fs1)
      | Inr redis_ok \<Rightarrow>
     (case (if redis_ok then Inr True
            else (case input_line os of
                    Inl e \<Rightarrow> Inl e
                  | Inr answer \<Rightarrow> Inr (py_lower answer = ''y''))) of
        Inl e \<Rightarrow> (Inl e, fs1)
      | Inr ok \<Rightarrow>
     if \<not> ok then (Inr False, fs1) else
     (case check_port_conflicts os (getattr (port a) 3000) of
        Inl e \<Rightarrow> (Inl e, fs1)
      | Inr ok \<Rightarrow> (Inr ok, fs1))))))))"

definition start_dev_mode :: "os \<Rightarrow> args \<Rightarrow> fs \<Rightarrow> (exn + bool) \<times> fs" where
  "start_dev_mode os a fs =
     (case dev_preflight os a fs of
        (Inl e, fs') \<Rightarrow> (Inl e, fs')
      | (Inr ok, fs') \<Rightarrow>
          if \<not> ok then (Inr False, fs')
          else (launch_foreground os [''npm'', ''run'', ''dev''] (child_env ''development'' a), fs'))"

text \<open>\<^verbatim>\<open>start_prod_mode\<close> up to the launch: Redis is a gate, nobody is asked.\<close>

definition prod_preflight :: "os \<Rightarrow> args \<Rightarrow> fs \<Rightarrow> (exn + bool) \<times> fs" where
  "prod_preflight os a fs =
     (case run_system_check os of
        Inl e \<Rightarrow> (Inl e, fs)
      | Inr ok \<Rightarrow>
     if \<not> ok then (Inr False, fs) else
     (case prepare_environment os fs of
        (Inl e, fs1) \<Rightarrow> (Inl e, fs1)
      | (Inr ok, fs1) \<Rightarrow>
     if \<not> ok then (Inr False, fs1) else
     (case install_dependencies os fs1 of
        Inl e \<Rightarrow> (Inl e, fs1)
      | Inr ok \<Rightarrow>
     if \<not> ok then (Inr False, fs1) else
     (case build_frontend os fs1 of
        Inl e \<Rightarrow> (Inl e, fs1)
      | Inr ok \<Rightarrow>
     if \<not> ok then (Inr False, fs1) else
     (case check_redis_availability os fs1 of
        Inl e \<Rightarrow> (Inl e, fs1)
      | Inr ok \<Rightarrow>
     if \<not> ok then (Inr False, fs1) else
     (case check_port_conflicts os (getattr (port a) 3000) of
        Inl e \<Rightarrow> (Inl e, fs1)
      | Inr ok \<Rightarrow> (Inr ok, fs1)))))))"

text \<open>The daemon is started by a command that is run to its end; its exit code decides.\<close>

definition launch_daemon :: "os \<Rightarrow> args \<Rightarrow> exn + bool" where
  "launch_daemon os a =
     except_Exception
       (case run os [''npm'', ''run'', ''service:start:daemon''] (Some project_root)
               (child_env ''production'' a) of
          Inl e \<Rightarrow> Inl e
        | Inr result \<Rightarrow> Inr (returncode result = 0))
       (\<lambda>e. False)"

definition start_prod_mode :: "os \<Rightarrow> args \<Rightarrow> fs \<Rightarrow> (exn + bool) \<times> fs" where
  "start_prod_mode os a fs =
     (case prod_preflight os a fs of
        (Inl e, fs') \<Rightarrow> (Inl e, fs')
      | (Inr ok, fs') \<Rightarrow>
          if \<not> ok then (Inr False, fs')
          else if getattr (daemon a) False then (launch_daemon os a, fs')
          else (launch_foreground os [''npm'', ''start''] (child_env ''production'' a), fs'))"

text \<open>
  The \<^verbatim>\<open>try\<close> of \<^verbatim>\<open>start_docker_mode\<close>. After a KeyboardInterrupt the stack is taken down
  inside the handler, where nothing catches what \<^verbatim>\<open>docker-compose down\<close> raises.
\<close>

definition docker_up :: "os \<Rightarrow> args \<Rightarrow> exn + bool" where
  "docker_up os a =
     (case (case (if getattr (rebuild a) False then
                    (case run os [''docker-compose'', ''build''] (Some project_root) [] of
                       Inl e \<Rightarrow> Inl e
                     | Inr result \<Rightarrow> Inr (returncode result \<noteq> 0))
                  else Inr False) of
              Inl e \<Rightarrow> Inl e
            | Inr build_failed \<Rightarrow>
                if build_failed then Inr False
                else
                  (case popen os ([''docker-compose'', ''up'']
                                  @ (if getattr (daemon a) False then [''-d''] else []))
                          (Some project_root) [] of
                     SpawnFailed e \<Rightarrow> Inl e
                   | Spawned child (Exited code) \<Rightarrow> Inr True
                   | Spawned child Signalled \<Rightarrow> Inl signal_handler
                   | Spawned child (WaitRaised e) \<Rightarrow> Inl e)) of
        Inl e \<Rightarrow>
          if isinstance e KeyboardInterrupt then
            (case run os [''docker-compose'', ''down''] (Some project_root) [] of
               Inl e' \<Rightarrow> Inl e'
             | Inr result \<Rightarrow> Inr True)
          else if isinstance e Exception then Inr False
          else Inl e
      | Inr ok \<Rightarrow> Inr ok)"

definition start_docker_mode :: "os \<Rightarrow> args \<Rightarrow> exn + bool" where
  "start_docker_mode os a =
     (case check_docker_installed os of
        Inl e \<Rightarrow> Inl e
      | Inr (docker_ok, docker_info) \<Rightarrow>
          if \<not> docker_ok then Inr False
          else
            (case check_docker_compose_installed os of
               Inl e \<Rightarrow> Inl e
             | Inr (compose_ok, compose_info) \<Rightarrow>
                 if \<not> compose_ok then Inr False else docker_up os a))"

definition manage_service :: "os \<Rightarrow> string \<Rightarrow> exn + bool" where
  "manage_service os act =
     except_Exception
       (case run os [''npm'', ''run'', ''service:'' @ act] (Some project_root) [] of
          Inl e \<Rightarrow> Inl e
        | Inr result \<Rightarrow> Inr (returncode result = 0))
       (\<lambda>e. False)"

text \<open>
  \<^verbatim>\<open>show_status\<close> collects the checks and returns True; it has no \<^verbatim>\<open>try\<close>, so what a check
  raises leaves it.
\<close>

definition show_status :: "os \<Rightarrow> fs \<Rightarrow> (exn + bool) \<times> fs" where
  "show_status os fs =
     (let system_info = get_system_info os
      in case check_node_version os of
           Inl e \<Rightarrow> (Inl e, fs)
         | Inr (node_ok, node_info) \<Rightarrow>
        (case check_redis_availability os fs of
           Inl e \<Rightarrow> (Inl e, fs)
         | Inr redis_ok \<Rightarrow>
        (case get_running_pid os fs of
           (Inl e, fs') \<Rightarrow> (Inl e, fs')
         | (Inr pid, fs') \<Rightarrow>
        (case check_port_available os 3000 of
           Inl e \<Rightarrow> (Inl e, fs')
         | Inr port_ok \<Rightarrow> (Inr True, fs')))))"

section \<open>main\<close>

text \<open>What an invocation leaves: the exit status, whether the help was printed, the files.\<close>

record result =
  exit_status :: int
  help_printed :: bool
  files :: fs

text \<open>
  The branch of \<^verbatim>\<open>main\<close> for a mode; \<open>None\<close> for a mode that is none of the five. The
  attribute \<^verbatim>\<open>args.action\<close> is read inside the \<^verbatim>\<open>try\<close>.
\<close>

definition dispatch :: "os \<Rightarrow> args \<Rightarrow> string \<Rightarrow> fs \<Rightarrow> ((exn + bool) \<times> fs) option" where
  "dispatch os a m fs =
     (if m = ''dev'' then Some (start_dev_mode os a fs)
      else if m = ''prod'' then Some (start_prod_mode os a fs)
      else if m = ''docker'' then Some (start_docker_mode os a, fs)
      else if m = ''service'' then
        Some (case action a of
                None \<Rightarrow> Inl (Exn AttributeError ''action'')
              | Some act \<Rightarrow> manage_service os act, fs)
      else if m = ''status'' then Some (show_status os fs)
      else None)"

text \<open>
  The exit status of the interpreter when \<open>e\<close> leaves the \<^verbatim>\<open>try\<close> of \<^verbatim>\<open>main\<close>:
  a KeyboardInterrupt is logged and \<^verbatim>\<open>main\<close> returns; an \<^verbatim>\<open>Exception\<close> is logged and
  \<^verbatim>\<open>sys.exit(1)\<close> follows; a SystemExit passes with its code; any other exception is
  not caught at all and ends the interpreter with status 1.
\<close>

definition exit_status_of :: "exn \<Rightarrow> int" where
  "exit_status_of e =
     (if isinstance e KeyboardInterrupt then 0
      else if isinstance e Exception then 1
      else (case e of SystemExit n \<Rightarrow> n | Exn c s \<Rightarrow> 1))"

definition main :: "os \<Rightarrow> args \<Rightarrow> fs \<Rightarrow> result" where
  "main os a fs =
     (case mode a of
        None \<Rightarrow> \<lparr>exit_status = 0, help_printed = True, files = fs\<rparr>
      | Some m \<Rightarrow>
          if m = [] then \<lparr>exit_status = 0, help_printed = True, files = fs\<rparr>
          else
            (case dispatch os a m fs of
               None \<Rightarrow> \<lparr>exit_status = 0, help_printed = True, files = fs\<rparr>
             | Some (Inl e, fs') \<Rightarrow>
                 \<lparr>exit_status = exit_status_of e, help_printed = False, files = fs'\<rparr>
             | Some (Inr success, fs') \<Rightarrow>
                 \<lparr>exit_status = (if success then 0 else 1), help_printed = False, files = fs'\<rparr>))"

section \<open>Calling an operation twice\<close>

text \<open>Both results and the files after the second call.\<close>

definition call_twice :: "(fs \<Rightarrow> ('r \<times> fs)) \<Rightarrow> fs \<Rightarrow> 'r \<times> 'r \<times> fs" where
  "call_twice operation fs =
     (case operation fs of
        (r1, fs1) \<Rightarrow> (case operation fs1 of (r2, fs2) \<Rightarrow> (r1, r2, fs2)))"

section \<open>Example environments\<close>

text \<open>A machine with nothing installed, nothing listening and no process to signal.\<close>

definition bare_os :: os where
  "bare_os =
     \<lparr>platform_system = ''Linux'', sys_platform = ''linux'', linesep = [CHR 0x0A],
      run = (\<lambda>argv dir env. Inl (Exn FileNotFoundError ''No such file or directory'')),
      popen = (\<lambda>argv dir env. SpawnFailed (Exn FileNotFoundError ''No such file or directory'')),
      connect_ex = (\<lambda>host p. Inr 111),
      kill = (\<lambda>pid sig. Inl (Exn OSError ''No such process'')),
      input_line = Inl (Exn EOFError ''EOF when reading a line''),
      glob_star = (\<lambda>p. []),
      platform_machine = ''x86_64'', python_version = ''3.11.10'', cwd = ''/srv/app'',
      json_load = (\<lambda>bytes. Inl (Exn ValueError ''Expecting value'')),
      update_from_array = (\<lambda>d xs. d)\<rparr>"

text \<open>Node.js answers \<^verbatim>\<open>--version\<close> with \<open>out\<close>; npm is there too.\<close>

definition node_os :: "string \<Rightarrow> os" where
  "node_os out =
     bare_os\<lparr>run := (\<lambda>argv dir env.
        if argv = [''node'', ''--version'']
          then Inr \<lparr>returncode = 0, stdout = out, stderr = []\<rparr>
        else if argv = [''npm'', ''--version'']
          then Inr \<lparr>returncode = 0, stdout = ''9.6.7'' @ [CHR 0x0A], stderr = []\<rparr>
        else Inl (Exn FileNotFoundError ''No such file or directory''))\<rparr>"

text \<open>
  A machine ready for the server: Redis listens on 6379, port 3000 is free, the front-end
  is built, and the server, once started as process 4242, exits with \<open>code\<close>.
\<close>

definition dev_os :: "int \<Rightarrow> os" where
  "dev_os code =
     (node_os (''v18.17.0'' @ [CHR 0x0A]))
       \<lparr>popen := (\<lambda>argv dir env. Spawned 4242 (Exited code)),
        connect_ex := (\<lambda>host p. if p = 6379 then Inr 0 else Inr 111),
        glob_star := (\<lambda>p. [''index.html''])\<rparr>"

definition dev_fs :: fs where
  "dev_fs =
     [env_file \<mapsto> File (''REDIS_PORT=6379'' @ [CHR 0x0A]),
      config_file \<mapsto> File ''module.exports = {}'',
      ''node_modules'' \<mapsto> Dir,
      ''package-lock.json'' \<mapsto> File ''{}'',
      ''web/admin-spa/dist'' \<mapsto> Dir]"

definition dev_args :: args where
  "dev_args =
     \<lparr>mode = Some ''dev'', port = Some 3000, daemon = None, rebuild = None, action = None\<rparr>"

definition prod_args :: args where
  "prod_args =
     \<lparr>mode = Some ''prod'', port = Some 3000, daemon = Some False, rebuild = None,
      action = None\<rparr>"

definition status_args :: args where
  "status_args =
     \<lparr>mode = Some ''status'', port = None, daemon = None, rebuild = None, action = None\<rparr>"

definition no_args :: args where
  "no_args = \<lparr>mode = None, port = None, daemon = None, rebuild = None, action = None\<rparr>"

text \<open>A project whose \<^verbatim>\<open>.env\<close> gives a Redis port that is no number.\<close>

definition bad_port_fs :: fs where
  "bad_port_fs = [env_file \<mapsto> File ''REDIS_PORT=abc'']"

text \<open>The start configuration \<^verbatim>\<open>{"foo": 1}\<close> and a decoder that reads it.\<close>

definition foo_bytes :: string where
  "foo_bytes = [CHR 0x7B, CHR 0x22] @ ''foo'' @ [CHR 0x22] @ '': 1}''"

definition foo_os :: os where
  "foo_os =
     bare_os\<lparr>json_load := (\<lambda>bytes.
        if bytes = foo_bytes then Inr (JObj [(''foo'', JInt 1)])
        else Inl (Exn ValueError ''Expecting value''))\<rparr>"

definition foo_fs :: fs where
  "foo_fs = [start_config_file \<mapsto> File foo_bytes]"

text \<open>A template with a Windows line end, and no target yet.\<close>

definition crlf_fs :: fs where
  "crlf_fs = [config_example \<mapsto> File [CHR ''a'', CHR 0x0D, CHR 0x0A]]"

text \<open>A template in plain text with Unix line ends, for each of the two targets.\<close>

definition template_fs :: fs where
  "template_fs =
     [config_example \<mapsto> File (''module.exports = {}'' @ [CHR 0x0A]),
      env_example \<mapsto> File (''REDIS_PORT=6379'' @ [CHR 0x0A])]"




section \<open>Facts about the Python values\<close>










text \<open>\<open>dec_value\<close> reads back what \<^verbatim>\<open>str\<close> prints: it is the decimal reading.\<close>

lemma dec_value_snoc: "is_digit c \<Longrightarrow> dec_value (s @ [c]) = 10 * dec_value s + digit_value c"
  by (simp add: dec_value_def)

lemma dec_value_nat_digits: "dec_value (nat_digits n) = n"
proof (induction n rule: nat_digits.induct)
  case (1 n)
  show ?case
  proof (cases "n < 10")
    case True
    then show ?thesis
      by (subst nat_digits.simps) (simp add: dec_value_def is_digit_def digit_value_def)
  next
    case False
    have d: "is_digit (char_of (48 + n mod 10))" by (simp add: is_digit_def)
    have v: "digit_value (char_of (48 + n mod 10)) = n mod 10" by (simp add: digit_value_def)
    have "dec_value (nat_digits n) = dec_value (nat_digits (n div 10) @ [char_of (48 + n mod 10)])"
      using False by (subst nat_digits.simps) simp
    also have "\<dots> = 10 * (n div 10) + n mod 10"
      using 1 False by (simp add: dec_value_snoc[OF d] v)
    finally show ?thesis by simp
  qed
qed



lemma universal_newlines_no_cr: "CHR 0x0D \<notin> set s \<Longrightarrow> universal_newlines s = s"
  by (induction s rule: universal_newlines.induct) auto

lemma write_newlines_lf: "linesep os = [CHR 0x0A] \<Longrightarrow> write_newlines os s = s"
  by (induction s) (auto simp: write_newlines_def)

text \<open>The update of a dict by a dict, read as maps: the later entry of a key wins.\<close>

lemma map_of_dict_update: "map_of (dict_update d u) = map_of d ++ map_of (rev u)"
  unfolding dict_update_def
proof (induction u arbitrary: d)
  case Nil
  show ?case by simp
next
  case (Cons p u)
  obtain k v where p: "p = (k, v)" by (cases p)
  have "map_of (fold (\<lambda>(k, v). AList.update k v) u (AList.update k v d))
          = map_of (AList.update k v d) ++ map_of (rev u)"
    by (rule Cons.IH)
  also have "\<dots> = (map_of d)(k \<mapsto> v) ++ map_of (rev u)"
    by (simp add: update_conv')
  also have "\<dots> = map_of d ++ map_of (rev (p # u))"
    by (simp add: p)
  finally show ?case by (simp add: p)
qed

lemma map_of_rev_distinct: "distinct (map fst u) \<Longrightarrow> map_of (rev u) = map_of u"
proof (induction u)
  case Nil
  show ?case by simp
next
  case (Cons p u)
  obtain k v where p: "p = (k, v)" by (cases p)
  have k: "k \<notin> dom (map_of u)" using Cons.prems by (simp add: p dom_map_of_conv_image_fst)
  have "map_of (rev (p # u)) = [k \<mapsto> v] ++ map_of u"
    using Cons by (simp add: p)
  also have "\<dots> = (map_of u)(k \<mapsto> v)"
    using k by (auto simp: fun_eq_iff map_add_def split: option.splits)
  finally show ?case by (simp add: p)
qed

section \<open>The probes and the exceptions they let pass\<close>

lemma except_Exception_passes: "except_Exception r h = Inl e \<Longrightarrow> \<not> isinstance e Exception"
  by (auto simp: except_Exception_def split: sum.splits if_splits)

text \<open>
  Each probe of \<^verbatim>\<open>SystemChecker\<close> stands in a \<^verbatim>\<open>try\<close> with \<^verbatim>\<open>except Exception\<close>: no
  \<^verbatim>\<open>Exception\<close> leaves it.
\<close>

lemma probes_catch_Exception:
  "check_node_version os = Inl e \<Longrightarrow> \<not> isinstance e Exception"
  "check_npm_installed os = Inl e \<Longrightarrow> \<not> isinstance e Exception"
  "check_docker_installed os = Inl e \<Longrightarrow> \<not> isinstance e Exception"
  "check_docker_compose_installed os = Inl e \<Longrightarrow> \<not> isinstance e Exception"
  "check_port_available os p = Inl e \<Longrightarrow> \<not> isinstance e Exception"
  "check_redis_connection os host p = Inl e \<Longrightarrow> \<not> isinstance e Exception"
  unfolding check_node_version_def check_npm_installed_def check_docker_installed_def
    check_docker_compose_installed_def version_probe_def check_port_available_def
    check_redis_connection_def
  by (erule except_Exception_passes)+

text \<open>
  C3. The claim: every probe, the wrapper \<^verbatim>\<open>ServiceStarter.check_redis_availability\<close>
  included, returns a result and never raises, whatever the environment. The wrapper
  converts the port of the \<^verbatim>\<open>.env\<close> file with \<^verbatim>\<open>int\<close> outside every \<^verbatim>\<open>try\<close>: with the line
  \<^verbatim>\<open>REDIS_PORT=abc\<close> in the file the ValueError leaves it.
\<close>

theorem check_redis_availability_raises:
  "check_redis_availability bare_os bad_port_fs
     = Inl (Exn ValueError (''invalid literal for int() with base 10: '' @ [CHR 0x27] @ ''abc'' @ [CHR 0x27]))"
  by code_simp

text \<open>
  C2. The claim: the status mode ends with exit status 0 in every state of the
  environment, whatever the \<^verbatim>\<open>.env\<close> file holds. With the same line \<^verbatim>\<open>REDIS_PORT=abc\<close> the
  ValueError leaves \<^verbatim>\<open>show_status\<close>, is caught in \<^verbatim>\<open>main\<close>, and the exit status is 1.
\<close>

theorem status_mode_fails_on_bad_redis_port:
  "exit_status (main (node_os (''v18.17.0'' @ [CHR 0x0A])) status_args bad_port_fs) = 1"
  by code_simp

section \<open>The Node.js version check\<close>



section \<open>The start configuration\<close>

text \<open>
  C5, as the code has it. When the start-config file holds a JSON object, the loaded
  configuration is the default map updated by the object: a key of the file has the file's
  value, whether the defaults know the key or not, and every other key has its default.
  Keys that the defaults do not know are kept, not ignored.
\<close>

theorem load_start_config_overlay:
  assumes "fs start_config_file = Some (File bytes)"
    and "json_load os bytes = Inr (JObj u)"
    and "distinct (map fst u)"
  shows "load_start_config os fs = Inr (dict_update default_config u)
       \<and> (\<forall>k. map_of (dict_update default_config u) k
               = (case map_of u k of Some v \<Rightarrow> Some v | None \<Rightarrow> map_of default_config k))"
proof -
  have "load_start_config os fs = Inr (dict_update default_config u)"
    using assms(1,2)
    by (simp add: load_start_config_def path_exists_def open_read_def update_with_def)
  moreover have "map_of (dict_update default_config u) k
                   = (case map_of u k of Some v \<Rightarrow> Some v | None \<Rightarrow> map_of default_config k)" for k
    using assms(3) by (simp add: map_of_dict_update map_of_rev_distinct map_add_def)
  ultimately show ?thesis by blast
qed

theorem load_start_config_overlay_witness:
  "load_start_config foo_os foo_fs = Inr (dict_update default_config [(''foo'', JInt 1)])
   \<and> map_of (dict_update default_config [(''foo'', JInt 1)]) ''foo'' = Some (JInt 1)
   \<and> map_of (dict_update default_config [(''foo'', JInt 1)]) ''default_mode'' = Some (JStr ''dev'')"
proof -
  have present: "foo_fs start_config_file = Some (File foo_bytes)"
    by (simp add: foo_fs_def)
  have decoded: "json_load foo_os foo_bytes = Inr (JObj [(''foo'', JInt 1)])"
    by (simp add: foo_os_def)
  have keys: "distinct (map fst [(''foo'', JInt 1)])"
    by simp
  have "map_of default_config ''default_mode'' = Some (JStr ''dev'')"
    by (simp add: default_config_def)
  then show ?thesis
    using load_start_config_overlay[where fs = foo_fs and bytes = foo_bytes and os = foo_os
        and u = "[(''foo'', JInt 1)]"] present decoded keys
    by simp
qed

text \<open>
  C5, as the claim states it, fails: with \<^verbatim>\<open>{"foo": 1}\<close> in the file, the key \<open>foo\<close>,
  which the defaults do not have, is in the result.
\<close>

theorem load_start_config_keeps_unknown_key:
  "load_start_config foo_os foo_fs = Inr (default_config @ [(''foo'', JInt 1)])
   \<and> map_of default_config ''foo'' = None
   \<and> map_of (default_config @ [(''foo'', JInt 1)]) ''foo'' = Some (JInt 1)"
  by code_simp

section \<open>The ensure operations\<close>

text \<open>
  C6. \<^verbatim>\<open>ensure_config_file\<close> called twice: when the target exists, both calls return True
  and the files are as before; when neither the target nor the template exists, both calls
  return False and the files are as before, so the target has not been created.
\<close>

theorem ensure_config_file_idempotent:
  "(path_exists fs config_file \<longrightarrow>
      call_twice (ensure_config_file os) fs = (Inr True, Inr True, fs))
   \<and> (\<not> path_exists fs config_file \<and> \<not> path_exists fs config_example \<longrightarrow>
        call_twice (ensure_config_file os) fs = (Inr False, Inr False, fs))"
  by (simp add: call_twice_def ensure_config_file_def)

theorem ensure_config_file_idempotent_witness:
  "call_twice (ensure_config_file bare_os) dev_fs = (Inr True, Inr True, dev_fs)
   \<and> call_twice (ensure_config_file bare_os) bad_port_fs = (Inr False, Inr False, bad_port_fs)
   \<and> \<not> path_exists bad_port_fs config_file"
proof -
  have there: "path_exists dev_fs config_file"
    by (simp add: path_exists_def dev_fs_def config_file_def env_file_def)
  have missing: "\<not> path_exists bad_port_fs config_file \<and> \<not> path_exists bad_port_fs config_example"
    by (simp add: path_exists_def bad_port_fs_def config_file_def config_example_def env_file_def)
  show ?thesis
    using ensure_config_file_idempotent[of dev_fs bare_os]
      ensure_config_file_idempotent[of bad_port_fs bare_os] there missing
    by blast
qed

text \<open>The same for \<^verbatim>\<open>ensure_env_file\<close>.\<close>

lemma ensure_env_file_idempotent:
  "(path_exists fs env_file \<longrightarrow>
      call_twice (ensure_env_file os) fs = (Inr True, Inr True, fs))
   \<and> (\<not> path_exists fs env_file \<and> \<not> path_exists fs env_example \<longrightarrow>
        call_twice (ensure_env_file os) fs = (Inr False, Inr False, fs))"
  by (simp add: call_twice_def ensure_env_file_def)

text \<open>
  What the copy writes: the template is decoded as UTF-8, its line ends are translated to LF
  on reading and to \<^verbatim>\<open>os.linesep\<close> on writing.
\<close>

lemma copy_template_text:
  assumes "fs dst = None" "fs src = Some (File bytes)" "valid_utf8 (map of_char bytes)"
  shows "copy_template os src dst fs
           = (Inr (), fs(dst \<mapsto> File (write_newlines os (universal_newlines bytes))))"
  using assms
  by (simp add: copy_template_def open_read_def open_write_def read_text_def)

text \<open>
  C8, as the code has it. With the target absent and the template present, on a system
  whose line separator is LF, a template that is well-formed UTF-8 and holds no carriage
  return is copied byte for byte, by \<^verbatim>\<open>ensure_config_file\<close> and by \<^verbatim>\<open>ensure_env_file\<close>.
\<close>

theorem ensure_copies_text:
  assumes "valid_utf8 (map of_char bytes)" "CHR 0x0D \<notin> set bytes" "linesep os = [CHR 0x0A]"
  shows "(fs config_file = None \<and> fs config_example = Some (File bytes) \<longrightarrow>
            ensure_config_file os fs = (Inr True, fs(config_file \<mapsto> File bytes)))
       \<and> (fs env_file = None \<and> fs env_example = Some (File bytes) \<longrightarrow>
            ensure_env_file os fs = (Inr True, fs(env_file \<mapsto> File bytes)))"
  using assms
  by (auto simp: ensure_config_file_def ensure_env_file_def path_exists_def copy_template_text
      universal_newlines_no_cr write_newlines_lf)

theorem ensure_copies_text_witness:
  "snd (ensure_config_file bare_os template_fs) config_file = template_fs config_example
   \<and> snd (ensure_env_file bare_os template_fs) env_file = template_fs env_example
   \<and> template_fs config_example = Some (File (''module.exports = {}'' @ [CHR 0x0A]))
   \<and> template_fs env_example = Some (File (''REDIS_PORT=6379'' @ [CHR 0x0A]))"
proof -
  have sep: "linesep bare_os = [CHR 0x0A]"
    by (simp add: bare_os_def)
  have config: "template_fs config_file = None
      \<and> template_fs config_example = Some (File (''module.exports = {}'' @ [CHR 0x0A]))"
    by (simp add: template_fs_def config_file_def config_example_def env_example_def)
  have env: "template_fs env_file = None
      \<and> template_fs env_example = Some (File (''REDIS_PORT=6379'' @ [CHR 0x0A]))"
    by (simp add: template_fs_def env_file_def config_example_def env_example_def)
  have utf8: "valid_utf8 (map of_char (''module.exports = {}'' @ [CHR 0x0A]))"
    "valid_utf8 (map of_char (''REDIS_PORT=6379'' @ [CHR 0x0A]))"
    by (simp_all add: seq_length_def)
  have no_cr: "CHR 0x0D \<notin> set (''module.exports = {}'' @ [CHR 0x0A])"
    "CHR 0x0D \<notin> set (''REDIS_PORT=6379'' @ [CHR 0x0A])"
    by simp_all
  show ?thesis
    using ensure_copies_text[OF utf8(1) no_cr(1) sep, of template_fs]
      ensure_copies_text[OF utf8(2) no_cr(2) sep, of template_fs] config env
    by simp
qed

text \<open>
  C8, as the claim states it, fails: a template that ends its line with CR LF arrives with
  LF alone, so the target differs from the template.
\<close>

theorem ensure_translates_newlines:
  "crlf_fs config_file = None
   \<and> crlf_fs config_example = Some (File [CHR ''a'', CHR 0x0D, CHR 0x0A])
   \<and> fst (ensure_config_file bare_os crlf_fs) = Inr True
   \<and> snd (ensure_config_file bare_os crlf_fs) config_file = Some (File [CHR ''a'', CHR 0x0A])"
  by code_simp

section \<open>The PID file\<close>






section \<open>The exit status of the launcher\<close>

text \<open>
  C10. Without a mode \<^verbatim>\<open>main\<close> prints the help and returns: the exit status is 0, and
  nothing else has happened.
\<close>

theorem main_no_mode:
  "mode a = None \<Longrightarrow> main os a fs = \<lparr>exit_status = 0, help_printed = True, files = fs\<rparr>"
  by (simp add: main_def)

theorem main_no_mode_witness:
  "exit_status (main bare_os no_args dev_fs) = 0 \<and> help_printed (main bare_os no_args dev_fs)"
proof -
  have "mode no_args = None" by (simp add: no_args_def)
  then show ?thesis using main_no_mode[of no_args bare_os dev_fs] by simp
qed

lemma launch_foreground_exited:
  "popen os cmd (Some project_root) env = Spawned child (Exited code)
     \<Longrightarrow> launch_foreground os cmd env = Inr True"
  by (simp add: launch_foreground_def)

text \<open>
  C1, as the code has it. In the dev mode, and in the prod mode without the daemon flag,
  when the preflight succeeds and the server is spawned and exits with code \<open>c\<close>, the
  launcher exits with status 0, whatever \<open>c\<close> is: the code that \<^verbatim>\<open>wait\<close> returns is not
  looked at.
\<close>

theorem foreground_exit_status_zero:
  "(mode a = Some ''dev''
      \<and> fst (dev_preflight os a fs) = Inr True
      \<and> popen os [''npm'', ''run'', ''dev''] (Some project_root) (child_env ''development'' a)
          = Spawned child (Exited c)
     \<longrightarrow> exit_status (main os a fs) = 0)
   \<and> (mode a = Some ''prod'' \<and> \<not> getattr (daemon a) False
      \<and> fst (prod_preflight os a fs) = Inr True
      \<and> popen os [''npm'', ''start''] (Some project_root) (child_env ''production'' a)
          = Spawned child (Exited c)
     \<longrightarrow> exit_status (main os a fs) = 0)"
  by (auto simp: main_def dispatch_def start_dev_mode_def start_prod_mode_def
      launch_foreground_exited split: prod.splits sum.splits)

theorem foreground_exit_status_zero_witness:
  "exit_status (main (dev_os 0) dev_args dev_fs) = 0
   \<and> exit_status (main (dev_os 3) prod_args dev_fs) = 0"
proof -
  have dev: "mode dev_args = Some ''dev''"
    by (simp add: dev_args_def)
  have dev_ready: "fst (dev_preflight (dev_os 0) dev_args dev_fs) = Inr True"
    by code_simp
  have dev_child: "popen (dev_os 0) [''npm'', ''run'', ''dev''] (Some project_root)
                     (child_env ''development'' dev_args) = Spawned 4242 (Exited 0)"
    by (simp add: dev_os_def node_os_def bare_os_def)
  have prod: "mode prod_args = Some ''prod'' \<and> \<not> getattr (daemon prod_args) False"
    by (simp add: prod_args_def getattr_def)
  have prod_ready: "fst (prod_preflight (dev_os 3) prod_args dev_fs) = Inr True"
    by code_simp
  have prod_child: "popen (dev_os 3) [''npm'', ''start''] (Some project_root)
                      (child_env ''production'' prod_args) = Spawned 4242 (Exited 3)"
    by (simp add: dev_os_def node_os_def bare_os_def)
  show ?thesis
    using foreground_exit_status_zero[of dev_args "dev_os 0" dev_fs 4242 0]
      foreground_exit_status_zero[of prod_args "dev_os 3" dev_fs 4242 3]
      dev dev_ready dev_child prod prod_ready prod_child
    by blast
qed

text \<open>
  C1, as the claim states it, fails: the dev server is spawned after a preflight that
  succeeds, it exits with code 1, and the launcher exits with status 0, not 1.
\<close>

theorem child_failure_not_propagated:
  "fst (dev_preflight (dev_os 1) dev_args dev_fs) = Inr True
   \<and> popen (dev_os 1) [''npm'', ''run'', ''dev''] (Some project_root)
       (child_env ''development'' dev_args) = Spawned 4242 (Exited 1)
   \<and> exit_status (main (dev_os 1) dev_args dev_fs) = 0
   \<and> exit_status (main (dev_os 1) dev_args dev_fs) \<noteq> 1"
  by code_simp

end
